theory Spec2Isabelle
  imports Complex_Main "HOL-Library.Sublist"
begin

section \<open>The blog post generator: strings, JSON and exceptions\<close>

text \<open>
  The program is one Python module, \<^verbatim>\<open>app.py\<close>: a request handler
  \<^verbatim>\<open>generate_post\<close> that validates a topic and calls \<^verbatim>\<open>generate_content\<close>,
  which calls \<^verbatim>\<open>get_recent_news\<close> (one HTTP GET to the news service) and then the
  chat completion service three times (title, meta-description, article).

  A Python \<^verbatim>\<open>str\<close> is a sequence of Unicode code points, and the module's literals
  are Russian sentences, so a string is modelled as the list of its code points.
\<close>

type_synonym pystr = "nat list"

definition ascii :: "string \<Rightarrow> pystr" where
  \<comment> \<open>an ASCII literal of the source, as code points\<close>
  "ascii s = map of_char s"

definition is_space :: "nat \<Rightarrow> bool" where
  \<comment> \<open>the code points for which \<^verbatim>\<open>str.isspace\<close> holds, which \<^verbatim>\<open>str.strip()\<close> removes\<close>
  "is_space c =
     ((9 \<le> c \<and> c \<le> 13) \<or> (28 \<le> c \<and> c \<le> 32) \<or> c = 133 \<or> c = 160 \<or> c = 5760 \<or>
      (8192 \<le> c \<and> c \<le> 8202) \<or> c = 8232 \<or> c = 8233 \<or> c = 8239 \<or> c = 8287 \<or> c = 12288)"

definition lstrip :: "pystr \<Rightarrow> pystr" where
  "lstrip s = dropWhile is_space s"

definition rstrip :: "pystr \<Rightarrow> pystr" where
  "rstrip s = rev (dropWhile is_space (rev s))"

definition strip :: "pystr \<Rightarrow> pystr" where
  \<comment> \<open>\<^verbatim>\<open>s.strip()\<close>: leading and trailing whitespace removed\<close>
  "strip s = rstrip (lstrip s)"

fun join :: "pystr \<Rightarrow> pystr list \<Rightarrow> pystr" where
  \<comment> \<open>\<^verbatim>\<open>sep.join(xs)\<close> on a list of strings\<close>
  "join sep [] = []"
| "join sep [x] = x"
| "join sep (x # y # ys) = x @ sep @ join sep (y # ys)"

text \<open>
  A decoded JSON value, as \<^verbatim>\<open>response.json()\<close> returns it. An object is the Python
  dict as an association list (looked up with \<open>map_of\<close>); a number is a rational,
  which is enough for the one thing the program asks of a number: whether it is zero.
\<close>

datatype json =
    JNull
  | JBool bool
  | JNum rat
  | JStr pystr
  | JArr "json list"
  | JObj "(pystr \<times> json) list"

fun truthy :: "json \<Rightarrow> bool" where
  \<comment> \<open>Python's truth value of a decoded JSON value\<close>
  "truthy JNull = False"
| "truthy (JBool b) = b"
| "truthy (JNum q) = (q \<noteq> 0)"
| "truthy (JStr s) = (s \<noteq> [])"
| "truthy (JArr xs) = (xs \<noteq> [])"
| "truthy (JObj kvs) = (kvs \<noteq> [])"

definition dict_get :: "(pystr \<times> 'v) list \<Rightarrow> pystr \<Rightarrow> 'v \<Rightarrow> 'v" where
  \<comment> \<open>\<^verbatim>\<open>d.get(key, default)\<close>\<close>
  "dict_get d k dflt = (case map_of d k of None \<Rightarrow> dflt | Some v \<Rightarrow> v)"

text \<open>
  Exceptions. The classes the module tells apart are \<^verbatim>\<open>requests.RequestException\<close>
  (with its subclasses for a timeout, a connection error and an error status, the last
  raised by \<^verbatim>\<open>raise_for_status\<close>), \<^verbatim>\<open>openai.error.OpenAIError\<close>, and every other
  subclass of \<^verbatim>\<open>Exception\<close>. An exception carries its message, \<^verbatim>\<open>str(e)\<close>.
\<close>

datatype exc_class =
    Timeout
  | ConnectionError
  | HTTPError
  | OtherRequestException
  | OpenAIError
  | IndexError
  | AttributeError
  | TypeError
  | OtherException

datatype pyexc = PyExc exc_class pystr

fun is_RequestException :: "exc_class \<Rightarrow> bool" where
  "is_RequestException Timeout = True"
| "is_RequestException ConnectionError = True"
| "is_RequestException HTTPError = True"
| "is_RequestException OtherRequestException = True"
| "is_RequestException _ = False"

text \<open>
  What a handler ends with when it does not return: an \<^verbatim>\<open>HTTPException\<close> with its
  status code and detail, or an exception nobody caught (the web framework answers such
  a request with its own generic server error).
\<close>

datatype failure = HTTPException nat pystr | Uncaught exc_class

section \<open>The literal strings of the module\<close>

definition no_news_msg :: pystr where
  \<comment> \<open>line 42: the sentence returned when there are no news items (27 code points)\<close>
  "no_news_msg =
     [1057, 1074, 1077, 1078, 1080, 1093, 32, 1085, 1086, 1074, 1086, 1089, 1090, 1077,
      1081, 32, 1085, 1077, 32, 1085, 1072, 1081, 1076, 1077, 1085, 1086, 46]"

definition news_error_prefix :: pystr where
  \<comment> \<open>line 46: the fixed text before str(e) in the 502 detail (37 code points)\<close>
  "news_error_prefix =
     [1054, 1096, 1080, 1073, 1082, 1072, 32, 1087, 1088, 1080, 32, 1086, 1073, 1088, 1072,
      1097, 1077, 1085, 1080, 1080, 32, 1082, 32, 67, 117, 114, 114, 101, 110, 116, 115, 32,
      65, 80, 73, 58, 32]"

definition title_prompt_1 :: pystr where
  \<comment> \<open>line 60: the title prompt up to the opening quote before {topic} (66 code points)\<close>
  "title_prompt_1 =
     [1055, 1088, 1080, 1076, 1091, 1084, 1072, 1081, 1090, 1077, 32, 1087, 1088, 1080,
      1074, 1083, 1077, 1082, 1072, 1090, 1077, 1083, 1100, 1085, 1099, 1081, 32, 1080, 32,
      1090, 1086, 1095, 1085, 1099, 1081, 32, 1079, 1072, 1075, 1086, 1083, 1086, 1074,
      1086, 1082, 32, 1076, 1083, 1103, 32, 1089, 1090, 1072, 1090, 1100, 1080, 32, 1085,
      1072, 32, 1090, 1077, 1084, 1091, 32, 39]"

definition title_prompt_2 :: pystr where
  \<comment> \<open>line 60: between {topic} and {recent_news}; ends with a newline (33 code points)\<close>
  "title_prompt_2 =
     [39, 44, 32, 1089, 32, 1091, 1095, 1105, 1090, 1086, 1084, 32, 1072, 1082, 1090, 1091,
      1072, 1083, 1100, 1085, 1099, 1093, 32, 1085, 1086, 1074, 1086, 1089, 1090, 1077,
      1081, 58, 10]"

definition title_prompt_3 :: pystr where
  \<comment> \<open>line 60: after {recent_news} (119 code points)\<close>
  "title_prompt_3 =
     [46, 32, 1047, 1072, 1075, 1086, 1083, 1086, 1074, 1086, 1082, 32, 1076, 1086, 1083,
      1078, 1077, 1085, 32, 1073, 1099, 1090, 1100, 32, 1080, 1085, 1090, 1077, 1088, 1077,
      1089, 1085, 1099, 1084, 32, 1080, 32, 1103, 1089, 1085, 1086, 32, 1087, 1077, 1088,
      1077, 1076, 1072, 1074, 1072, 1090, 1100, 32, 1089, 1091, 1090, 1100, 32, 1090, 1077,
      1084, 1099, 46, 32, 1053, 1077, 32, 1080, 1089, 1087, 1086, 1083, 1100, 1079, 1091,
      1081, 32, 1089, 1080, 1084, 1074, 1086, 1083, 1099, 32, 35, 32, 1080, 32, 45, 32,
      1074, 32, 1090, 1077, 1082, 1089, 1090, 1077, 44, 32, 1076, 1072, 1078, 1077, 32,
      1074, 32, 1079, 1072, 1075, 1086, 1083, 1086, 1074, 1082, 1072, 1093, 46]"

definition meta_prompt_1 :: pystr where
  \<comment> \<open>line 73: the meta-description prompt up to the opening quote before {title} (49 code points)\<close>
  "meta_prompt_1 =
     [1053, 1072, 1087, 1080, 1096, 1080, 1090, 1077, 32, 1084, 1077, 1090, 1072, 45, 1086,
      1087, 1080, 1089, 1072, 1085, 1080, 1077, 32, 1076, 1083, 1103, 32, 1089, 1090, 1072,
      1090, 1100, 1080, 32, 1089, 32, 1079, 1072, 1075, 1086, 1083, 1086, 1074, 1082, 1086,
      1084, 58, 32, 39]"

definition meta_prompt_2 :: pystr where
  \<comment> \<open>line 73: after {title} (133 code points)\<close>
  "meta_prompt_2 =
     [39, 46, 32, 1054, 1085, 1086, 32, 1076, 1086, 1083, 1078, 1085, 1086, 32, 1073, 1099,
      1090, 1100, 32, 1087, 1086, 1083, 1085, 1099, 1084, 44, 32, 1080, 1085, 1092, 1086,
      1088, 1084, 1072, 1090, 1080, 1074, 1085, 1099, 1084, 32, 1080, 32, 1089, 1086, 1076,
      1077, 1088, 1078, 1072, 1090, 1100, 32, 1086, 1089, 1085, 1086, 1074, 1085, 1099,
      1077, 32, 1082, 1083, 1102, 1095, 1077, 1074, 1099, 1077, 32, 1089, 1083, 1086, 1074,
      1072, 46, 32, 1053, 1077, 32, 1080, 1089, 1087, 1086, 1083, 1100, 1079, 1091, 1081,
      32, 1089, 1080, 1084, 1074, 1086, 1083, 1099, 32, 35, 32, 1080, 32, 45, 32, 1074, 32,
      1090, 1077, 1082, 1089, 1090, 1077, 44, 32, 1076, 1072, 1078, 1077, 32, 1074, 32,
      1079, 1072, 1075, 1086, 1083, 1086, 1074, 1082, 1072, 1093, 46]"

definition body_prompt_1 :: pystr where
  \<comment> \<open>line 86: the article prompt up to the opening quote before {topic} (35 code points)\<close>
  "body_prompt_1 =
     [1053, 1072, 1087, 1080, 1096, 1080, 1090, 1077, 32, 1087, 1086, 1076, 1088, 1086,
      1073, 1085, 1091, 1102, 32, 1089, 1090, 1072, 1090, 1100, 1102, 32, 1085, 1072, 32,
      1090, 1077, 1084, 1091, 32, 39]"

definition body_prompt_2 :: pystr where
  \<comment> \<open>line 86: between {topic} and {recent_news}; ends with a newline (32 code points)\<close>
  "body_prompt_2 =
     [39, 44, 32, 1080, 1089, 1087, 1086, 1083, 1100, 1079, 1091, 1103, 32, 1087, 1086,
      1089, 1083, 1077, 1076, 1085, 1080, 1077, 32, 1085, 1086, 1074, 1086, 1089, 1090,
      1080, 58, 10]"

definition body_prompt_3 :: pystr where
  \<comment> \<open>lines 86-96: after {recent_news}, the nine numbered requirements with their line breaks and indentation (581 code points)\<close>
  "body_prompt_3 =
     [46, 10, 32, 32, 32, 32, 32, 32, 32, 32, 32, 32, 32, 32, 32, 32, 32, 32, 1057, 1090,
      1072, 1090, 1100, 1103, 32, 1076, 1086, 1083, 1078, 1085, 1072, 32, 1073, 1099, 1090,
      1100, 58, 10, 32, 32, 32, 32, 32, 32, 32, 32, 32, 32, 32, 32, 32, 32, 32, 32, 49, 46,
      32, 1048, 1085, 1092, 1086, 1088, 1084, 1072, 1090, 1080, 1074, 1085, 1086, 1081, 32,
      1080, 32, 1083, 1086, 1075, 1080, 1095, 1085, 1086, 1081, 10, 32, 32, 32, 32, 32, 32,
      32, 32, 32, 32, 32, 32, 32, 32, 32, 32, 50, 46, 32, 1057, 1086, 1076, 1077, 1088,
      1078, 1072, 1090, 1100, 32, 1085, 1077, 32, 1084, 1077, 1085, 1077, 1077, 32, 53, 48,
      48, 32, 1089, 1080, 1084, 1074, 1086, 1083, 1086, 1074, 10, 32, 32, 32, 32, 32, 32,
      32, 32, 32, 32, 32, 32, 32, 32, 32, 32, 51, 46, 32, 1048, 1084, 1077, 1090, 1100, 32,
      1095, 1077, 1090, 1082, 1091, 1102, 32, 1089, 1090, 1088, 1091, 1082, 1090, 1091,
      1088, 1091, 32, 1089, 32, 1087, 1086, 1076, 1079, 1072, 1075, 1086, 1083, 1086, 1074,
      1082, 1072, 1084, 1080, 10, 32, 32, 32, 32, 32, 32, 32, 32, 32, 32, 32, 32, 32, 32,
      32, 32, 52, 46, 32, 1042, 1082, 1083, 1102, 1095, 1072, 1090, 1100, 32, 1072, 1085,
      1072, 1083, 1080, 1079, 32, 1090, 1077, 1082, 1091, 1097, 1080, 1093, 32, 1090, 1088,
      1077, 1085, 1076, 1086, 1074, 10, 32, 32, 32, 32, 32, 32, 32, 32, 32, 32, 32, 32, 32,
      32, 32, 32, 53, 46, 32, 1048, 1084, 1077, 1090, 1100, 32, 1074, 1089, 1090, 1091,
      1087, 1083, 1077, 1085, 1080, 1077, 44, 32, 1086, 1089, 1085, 1086, 1074, 1085, 1091,
      1102, 32, 1095, 1072, 1089, 1090, 1100, 32, 1080, 32, 1079, 1072, 1082, 1083, 1102,
      1095, 1077, 1085, 1080, 1077, 10, 32, 32, 32, 32, 32, 32, 32, 32, 32, 32, 32, 32, 32,
      32, 32, 32, 54, 46, 32, 1042, 1082, 1083, 1102, 1095, 1072, 1090, 1100, 32, 1087,
      1088, 1080, 1084, 1077, 1088, 1099, 32, 1080, 1079, 32, 1072, 1082, 1090, 1091, 1072,
      1083, 1100, 1085, 1099, 1093, 32, 1085, 1086, 1074, 1086, 1089, 1090, 1077, 1081, 10,
      32, 32, 32, 32, 32, 32, 32, 32, 32, 32, 32, 32, 32, 32, 32, 32, 55, 46, 32, 1050,
      1072, 1078, 1076, 1099, 1081, 32, 1072, 1073, 1079, 1072, 1094, 32, 1076, 1086, 1083,
      1078, 1077, 1085, 32, 1073, 1099, 1090, 1100, 32, 1085, 1077, 32, 1084, 1077, 1085,
      1077, 1077, 32, 51, 45, 52, 32, 1087, 1088, 1077, 1076, 1083, 1086, 1078, 1077, 1085,
      1080, 1081, 10, 32, 32, 32, 32, 32, 32, 32, 32, 32, 32, 32, 32, 32, 32, 32, 32, 56,
      46, 32, 1058, 1077, 1082, 1089, 1090, 32, 1076, 1086, 1083, 1078, 1077, 1085, 32,
      1073, 1099, 1090, 1100, 32, 1083, 1077, 1075, 1082, 1080, 1084, 32, 1076, 1083, 1103,
      32, 1074, 1086, 1089, 1087, 1088, 1080, 1103, 1090, 1080, 1103, 32, 1080, 32, 1089,
      1086, 1076, 1077, 1088, 1078, 1072, 1090, 1077, 1083, 1100, 1085, 1099, 1084, 10, 32,
      32, 32, 32, 32, 32, 32, 32, 32, 32, 32, 32, 32, 32, 32, 32, 57, 46, 32, 1053, 1077,
      32, 1080, 1089, 1087, 1086, 1083, 1100, 1079, 1091, 1081, 32, 1089, 1080, 1084, 1074,
      1086, 1083, 32, 35, 32, 1074, 32, 1090, 1077, 1082, 1089, 1090, 1077, 44, 32, 1076,
      1072, 1078, 1077, 32, 1074, 32, 1079, 1072, 1075, 1086, 1083, 1086, 1074, 1082, 1072,
      1093, 46]"

definition openai_error_prefix :: pystr where
  \<comment> \<open>line 112: the fixed text before str(e) for an OpenAIError (35 code points)\<close>
  "openai_error_prefix =
     [1054, 1096, 1080, 1073, 1082, 1072, 32, 1087, 1088, 1080, 32, 1086, 1073, 1088, 1072,
      1097, 1077, 1085, 1080, 1080, 32, 1082, 32, 79, 112, 101, 110, 65, 73, 32, 65, 80, 73,
      58, 32]"

definition generation_error_prefix :: pystr where
  \<comment> \<open>line 114: the fixed text before str(e) for any other Exception (31 code points)\<close>
  "generation_error_prefix =
     [1054, 1096, 1080, 1073, 1082, 1072, 32, 1087, 1088, 1080, 32, 1075, 1077, 1085, 1077,
      1088, 1072, 1094, 1080, 1080, 32, 1082, 1086, 1085, 1090, 1077, 1085, 1090, 1072, 58,
      32]"

definition empty_topic_detail :: pystr where
  \<comment> \<open>line 123: the detail of the 400 response (34 code points)\<close>
  "empty_topic_detail =
     [1055, 1086, 1083, 1077, 32, 39, 116, 111, 112, 105, 99, 39, 32, 1085, 1077, 32, 1076,
      1086, 1083, 1078, 1085, 1086, 32, 1073, 1099, 1090, 1100, 32, 1087, 1091, 1089, 1090,
      1099, 1084]"

section \<open>The outside world\<close>

text \<open>
  The two services are outside the program. Every outbound call is appended to a log,
  and a service's answer may depend on everything the program has sent so far: that
  covers a service answering the same request differently each time (the generation
  calls sample at temperature 1).
\<close>

record news_request =
  url :: pystr
  params :: "(pystr \<times> pystr) list"
  timeout :: nat

record chat_request =
  model :: pystr
  messages :: "(pystr \<times> pystr) list"  \<comment> \<open>role and content of each message\<close>
  max_tokens :: nat
  temperature :: rat
  stop :: "pystr list option"
  presence_penalty :: "rat option"
  frequency_penalty :: "rat option"

datatype call = NewsGet news_request | ChatCreate chat_request

text \<open>
  A chat completion, as far as the program reads it: for each element of
  \<^verbatim>\<open>choices\<close>, its \<^verbatim>\<open>message.content\<close>, which is a string or \<^verbatim>\<open>None\<close>.
\<close>

type_synonym chat_response = "pystr option list"

text \<open>
  The answer of the news service, as far as the program reads it: the status code, the
  message \<^verbatim>\<open>raise_for_status\<close> would put into its \<^verbatim>\<open>HTTPError\<close> (the library
  builds it from the status, the reason and the URL), and what \<^verbatim>\<open>json()\<close> does on
  the body: raise, or return the decoded value.
\<close>

record response =
  status_code :: nat
  http_error_msg :: pystr
  json_body :: "pyexc + json"

record env =
  currentsapi_key :: pystr
  requests_get :: "call list \<Rightarrow> news_request \<Rightarrow> pyexc + response"
    \<comment> \<open>\<^verbatim>\<open>requests.get\<close>: what it raises (a timeout, a connection error, ...), or the
        response\<close>
  ChatCompletion_create :: "call list \<Rightarrow> chat_request \<Rightarrow> pyexc + chat_response"

record TopicRequest =
  topic :: pystr

type_synonym post = "(pystr \<times> pystr) list"

section \<open>get_recent_news\<close>

definition news_request_of :: "env \<Rightarrow> pystr \<Rightarrow> news_request" where
  "news_request_of e t =
     \<lparr>url = ascii ''https://api.currentsapi.services/v1/latest-news'',
      params = [(ascii ''language'', ascii ''en''), (ascii ''keywords'', t),
                (ascii ''apiKey'', currentsapi_key e)],
      timeout = 10\<rparr>"

fun first_five :: "json \<Rightarrow> exc_class + json list" where
  \<comment> \<open>\<^verbatim>\<open>news_data[:5]\<close>, iterated: a list gives its first five elements, a string its
      first five characters; a number or \<^verbatim>\<open>True\<close> cannot be subscripted and a dict
      cannot be indexed by a slice (the class of that last exception depends on the
      Python version; nobody catches it either way)\<close>
  "first_five (JArr xs) = Inr (take 5 xs)"
| "first_five (JStr s) = Inr (map (\<lambda>c. JStr [c]) (take 5 s))"
| "first_five _ = Inl TypeError"

fun article_title :: "json \<Rightarrow> exc_class + json" where
  \<comment> \<open>\<^verbatim>\<open>article.get("title", "")\<close>\<close>
  "article_title (JObj kvs) = Inr (dict_get kvs (ascii ''title'') (JStr []))"
| "article_title _ = Inl AttributeError"

fun titles :: "json list \<Rightarrow> exc_class + json list" where
  \<comment> \<open>the list comprehension: it stops at the first article that is not a dict\<close>
  "titles [] = Inr []"
| "titles (a # as) =
     (case article_title a of
        Inl c \<Rightarrow> Inl c
      | Inr v \<Rightarrow> (case titles as of Inl c \<Rightarrow> Inl c | Inr vs \<Rightarrow> Inr (v # vs)))"

fun strings :: "json list \<Rightarrow> exc_class + pystr list" where
  \<comment> \<open>\<^verbatim>\<open>str.join\<close> takes strings only\<close>
  "strings [] = Inr []"
| "strings (JStr s # vs) = (case strings vs of Inl c \<Rightarrow> Inl c | Inr ss \<Rightarrow> Inr (s # ss))"
| "strings (_ # vs) = Inl TypeError"

definition headlines :: "json \<Rightarrow> exc_class + pystr" where
  \<comment> \<open>lines 40 to 44, from the decoded body to the returned string\<close>
  "headlines body =
     (case body of
        JObj kvs \<Rightarrow>
          (let news_data = dict_get kvs (ascii ''news'') (JArr []) in
           if \<not> truthy news_data then Inr no_news_msg
           else
             (case first_five news_data of
                Inl c \<Rightarrow> Inl c
              | Inr as \<Rightarrow>
                  (case titles as of
                     Inl c \<Rightarrow> Inl c
                   | Inr vs \<Rightarrow>
                       (case strings vs of
                          Inl c \<Rightarrow> Inl c
                        | Inr ss \<Rightarrow> Inr (join [10] ss)))))
      | _ \<Rightarrow> Inl AttributeError)"

definition raise_for_status :: "response \<Rightarrow> pyexc + unit" where
  \<comment> \<open>the library's \<^verbatim>\<open>Response.raise_for_status\<close>: an \<^verbatim>\<open>HTTPError\<close> for a status from 400
      to 599, and nothing for any other status\<close>
  "raise_for_status resp =
     (if 400 \<le> status_code resp \<and> status_code resp < 600
      then Inl (PyExc HTTPError (http_error_msg resp))
      else Inr ())"

definition fetch :: "env \<Rightarrow> call list \<Rightarrow> news_request \<Rightarrow> pyexc + json" where
  \<comment> \<open>lines 38 to 40: the call, the status check, the decoding; the first that raises
      ends them\<close>
  "fetch e h req =
     (case requests_get e h req of
        Inl x \<Rightarrow> Inl x
      | Inr resp \<Rightarrow>
          (case raise_for_status resp of
             Inl x \<Rightarrow> Inl x
           | Inr u \<Rightarrow> json_body resp))"

definition get_recent_news :: "env \<Rightarrow> pystr \<Rightarrow> call list \<Rightarrow> (failure + pystr) \<times> call list" where
  "get_recent_news e t h =
     (let req = news_request_of e t; h' = h @ [NewsGet req] in
      case fetch e h req of
        Inl (PyExc c msg) \<Rightarrow>
          if is_RequestException c
          then (Inl (HTTPException 502 (news_error_prefix @ msg)), h')
          else (Inl (Uncaught c), h')
      | Inr body \<Rightarrow>
          (case headlines body of
             Inl c \<Rightarrow> (Inl (Uncaught c), h')
           | Inr s \<Rightarrow> (Inr s, h')))"

section \<open>generate_content\<close>

definition gpt_4o_mini :: pystr where
  "gpt_4o_mini = ascii ''gpt-4o-mini''"

definition title_prompt :: "pystr \<Rightarrow> pystr \<Rightarrow> pystr" where
  "title_prompt t recent_news =
     title_prompt_1 @ t @ title_prompt_2 @ recent_news @ title_prompt_3"

definition meta_prompt :: "pystr \<Rightarrow> pystr" where
  "meta_prompt title = meta_prompt_1 @ title @ meta_prompt_2"

definition body_prompt :: "pystr \<Rightarrow> pystr \<Rightarrow> pystr" where
  "body_prompt t recent_news =
     body_prompt_1 @ t @ body_prompt_2 @ recent_news @ body_prompt_3"

definition title_request :: "pystr \<Rightarrow> pystr \<Rightarrow> chat_request" where
  "title_request t recent_news =
     \<lparr>model = gpt_4o_mini,
      messages = [(ascii ''user'', title_prompt t recent_news)],
      max_tokens = 20,
      temperature = 1,
      stop = Some [[10]],
      presence_penalty = None,
      frequency_penalty = None\<rparr>"

definition meta_request :: "pystr \<Rightarrow> chat_request" where
  "meta_request title =
     \<lparr>model = gpt_4o_mini,
      messages = [(ascii ''user'', meta_prompt title)],
      max_tokens = 30,
      temperature = 1,
      stop = Some [[46]],
      presence_penalty = None,
      frequency_penalty = None\<rparr>"

definition body_request :: "pystr \<Rightarrow> pystr \<Rightarrow> chat_request" where
  "body_request t recent_news =
     \<lparr>model = gpt_4o_mini,
      messages = [(ascii ''user'', body_prompt t recent_news)],
      max_tokens = 1000,
      temperature = 1,
      stop = None,
      presence_penalty = Some (6 / 10),
      frequency_penalty = Some (6 / 10)\<rparr>"

definition first_content :: "chat_response \<Rightarrow> pyexc + pystr" where
  \<comment> \<open>\<^verbatim>\<open>response.choices[0].message.content.strip()\<close>\<close>
  "first_content r =
     (case r of
        [] \<Rightarrow> Inl (PyExc IndexError (ascii ''list index out of range''))
      | None # _ \<Rightarrow>
          Inl (PyExc AttributeError
                 (ascii [CHR 0x27] @ ascii ''NoneType'' @ ascii [CHR 0x27] @
                  ascii '' object has no attribute '' @
                  ascii [CHR 0x27] @ ascii ''strip'' @ ascii [CHR 0x27]))
      | Some s # _ \<Rightarrow> Inr (strip s))"

definition chat :: "env \<Rightarrow> chat_request \<Rightarrow> call list \<Rightarrow> (pyexc + pystr) \<times> call list" where
  \<comment> \<open>one generation step: the call, then the text of its first choice, stripped\<close>
  "chat e req h =
     (case ChatCompletion_create e h req of
        Inl x \<Rightarrow> (Inl x, h @ [ChatCreate req])
      | Inr r \<Rightarrow> (first_content r, h @ [ChatCreate req]))"

definition try_body :: "env \<Rightarrow> pystr \<Rightarrow> pystr \<Rightarrow> call list \<Rightarrow> (pyexc + post) \<times> call list" where
  \<comment> \<open>lines 55 to 109, the body of the \<^verbatim>\<open>try\<close>\<close>
  "try_body e t recent_news h =
     (case chat e (title_request t recent_news) h of
        (Inl x, h1) \<Rightarrow> (Inl x, h1)
      | (Inr title, h1) \<Rightarrow>
          (case chat e (meta_request title) h1 of
             (Inl x, h2) \<Rightarrow> (Inl x, h2)
           | (Inr meta_description, h2) \<Rightarrow>
               (case chat e (body_request t recent_news) h2 of
                  (Inl x, h3) \<Rightarrow> (Inl x, h3)
                | (Inr post_content, h3) \<Rightarrow>
                    (Inr [(ascii ''title'', title),
                          (ascii ''meta_description'', meta_description),
                          (ascii ''post_content'', post_content)], h3))))"

definition generate_content :: "env \<Rightarrow> pystr \<Rightarrow> call list \<Rightarrow> (failure + post) \<times> call list" where
  "generate_content e t h =
     (case get_recent_news e t h of
        (Inl f, h0) \<Rightarrow> (Inl f, h0)
      | (Inr recent_news, h0) \<Rightarrow>
          (case try_body e t recent_news h0 of
             (Inl (PyExc c msg), h1) \<Rightarrow>
               if c = OpenAIError
               then (Inl (HTTPException 500 (openai_error_prefix @ msg)), h1)
               else (Inl (HTTPException 500 (generation_error_prefix @ msg)), h1)
           | (Inr p, h1) \<Rightarrow> (Inr p, h1)))"

section \<open>generate_post\<close>

definition generate_post :: "env \<Rightarrow> TopicRequest \<Rightarrow> call list \<Rightarrow> (failure + post) \<times> call list" where
  "generate_post e topic_req h =
     (if topic topic_req = [] \<or> strip (topic topic_req) = []
      then (Inl (HTTPException 400 empty_topic_detail), h)
      else generate_content e (strip (topic topic_req)) h)"

section \<open>Notions the statements below use\<close>

text \<open>
  A news item as the news service documents it: an object whose title, when it has one,
  is a string. \<open>title_text\<close> is the title such an item contributes to the digest: its
  title, or the empty string when it has none.
\<close>

fun well_formed_item :: "json \<Rightarrow> bool" where
  "well_formed_item (JObj kvs) =
     (case map_of kvs (ascii ''title'') of
        None \<Rightarrow> True
      | Some (JStr s) \<Rightarrow> True
      | Some _ \<Rightarrow> False)"
| "well_formed_item _ = False"

fun title_text :: "json \<Rightarrow> pystr" where
  "title_text (JObj kvs) =
     (case map_of kvs (ascii ''title'') of Some (JStr s) \<Rightarrow> s | _ \<Rightarrow> [])"
| "title_text _ = []"

text \<open>The generation requests of a log, in the order they were issued.\<close>

fun chat_requests :: "call list \<Rightarrow> chat_request list" where
  "chat_requests [] = []"
| "chat_requests (ChatCreate r # cs) = r # chat_requests cs"
| "chat_requests (NewsGet r # cs) = chat_requests cs"

text \<open>
  The sampling parameters of a generation request: output cap, temperature, stop
  sequences, presence penalty, frequency penalty.
\<close>

definition sampling ::
  "chat_request \<Rightarrow> nat \<times> rat \<times> pystr list option \<times> rat option \<times> rat option" where
  "sampling r = (max_tokens r, temperature r, stop r, presence_penalty r, frequency_penalty r)"

section \<open>Stub services for the examples\<close>

text \<open>
  A stub environment answers the news call with a fixed outcome and tells the three
  generation calls apart by their output cap.
\<close>

definition stub_env :: "(pyexc + response) \<Rightarrow> (nat \<Rightarrow> pyexc + chat_response) \<Rightarrow> env" where
  "stub_env news gen =
     \<lparr>currentsapi_key = ascii ''key'',
      requests_get = (\<lambda>h q. news),
      ChatCompletion_create = (\<lambda>h q. gen (max_tokens q))\<rparr>"

definition ok_response :: "json \<Rightarrow> response" where
  \<comment> \<open>status 200 with the given decoded body\<close>
  "ok_response j = \<lparr>status_code = 200, http_error_msg = [], json_body = Inr j\<rparr>"

definition article :: "string \<Rightarrow> json" where
  "article s = JObj [(ascii ''title'', JStr (ascii s))]"

definition seven_articles :: json where
  \<comment> \<open>seven items; the third has no title\<close>
  "seven_articles =
     JObj [(ascii ''status'', JStr (ascii ''ok'')),
           (ascii ''news'',
            JArr [article ''a1'', article ''a2'', JObj [(ascii ''id'', JNum 3)], article ''a4'',
                  article ''a5'', article ''a6'', article ''a7''])]"

definition five_articles :: json where
  \<comment> \<open>the first five items of \<open>seven_articles\<close>\<close>
  "five_articles =
     JObj [(ascii ''news'',
            JArr [article ''a1'', article ''a2'', JObj [(ascii ''id'', JNum 3)], article ''a4'',
                  article ''a5''])]"

definition digest5 :: pystr where
  \<comment> \<open>the digest of either payload\<close>
  "digest5 = ascii ''a1'' @ [10] @ ascii ''a2'' @ [10] @ [10] @ ascii ''a4'' @ [10] @ ascii ''a5''"

definition gen_ok :: "nat \<Rightarrow> pyexc + chat_response" where
  "gen_ok n =
     (if n = 20 then Inr [Some (ascii '' Q '')]
      else if n = 30 then Inr [Some (ascii ''W ''), Some (ascii ''other'')]
      else Inr [Some (ascii ''Body'')])"

definition gen_meta_fails :: "nat \<Rightarrow> pyexc + chat_response" where
  "gen_meta_fails n =
     (if n = 20 then Inr [Some (ascii '' Q '')]
      else if n = 30 then Inl (PyExc OpenAIError (ascii ''rate limit''))
      else Inr [Some (ascii ''Body'')])"

definition gen_empty_title :: "nat \<Rightarrow> pyexc + chat_response" where
  \<comment> \<open>the title call returns no text, as when generation stops at once on a newline\<close>
  "gen_empty_title n =
     (if n = 20 then Inr [Some []]
      else if n = 30 then Inr [Some (ascii ''W'')]
      else Inr [Some (ascii ''Body'')])"

definition env_ok :: env where
  "env_ok = stub_env (Inr (ok_response seven_articles)) gen_ok"

definition env_five :: env where
  "env_five = stub_env (Inr (ok_response five_articles)) gen_ok"

definition env_no_news :: env where
  "env_no_news = stub_env (Inr (ok_response (JObj []))) gen_ok"

definition env_timeout :: env where
  "env_timeout = stub_env (Inl (PyExc Timeout (ascii ''timed out''))) gen_ok"

definition env_meta_fails :: env where
  "env_meta_fails = stub_env (Inr (ok_response seven_articles)) gen_meta_fails"

definition env_empty_title :: env where
  "env_empty_title = stub_env (Inr (ok_response seven_articles)) gen_empty_title"

definition not_modified :: response where
  \<comment> \<open>a status that is neither 2xx nor an error status, with a JSON body\<close>
  "not_modified = \<lparr>status_code = 304, http_error_msg = [], json_body = Inr seven_articles\<rparr>"

definition env_not_modified :: env where
  "env_not_modified = stub_env (Inr not_modified) gen_ok"

definition unavailable :: response where
  "unavailable =
     \<lparr>status_code = 503,
      http_error_msg = ascii ''503 Server Error: Service Unavailable'',
      json_body = Inr (JObj [])\<rparr>"

definition env_unavailable :: env where
  "env_unavailable = stub_env (Inr unavailable) gen_ok"

lemmas fixture_defs =
  stub_env_def ok_response_def article_def seven_articles_def five_articles_def digest5_def
  gen_ok_def gen_meta_fails_def gen_empty_title_def
  env_ok_def env_five_def env_no_news_def env_timeout_def env_meta_fails_def env_empty_title_def
  not_modified_def env_not_modified_def unavailable_def env_unavailable_def

lemmas eval_defs =
  fixture_defs ascii_def is_space_def lstrip_def rstrip_def strip_def dict_get_def Let_def
  raise_for_status_def fetch_def headlines_def get_recent_news_def first_content_def chat_def
  title_request_def meta_request_def body_request_def

section \<open>Facts about strip\<close>

lemma rstrip_Cons: "\<not> is_space x \<Longrightarrow> rstrip (x # xs) = x # rstrip xs"
  by (simp add: rstrip_def dropWhile_append3)

lemma lstrip_rstrip_lstrip: "lstrip (rstrip (lstrip s)) = rstrip (lstrip s)"
proof (cases "lstrip s")
  case Nil
  then show ?thesis by (simp add: rstrip_def lstrip_def del: dropWhile_eq_Nil_conv)
next
  case (Cons x xs)
  then have "\<not> is_space x"
    unfolding lstrip_def by (metis hd_dropWhile list.sel(1) list.distinct(1))
  with Cons show ?thesis by (simp add: rstrip_Cons) (simp add: lstrip_def)
qed

lemma rstrip_idem: "rstrip (rstrip s) = rstrip s"
  by (simp add: rstrip_def)

lemma strip_idem: "strip (strip s) = strip s"
  by (simp add: strip_def lstrip_rstrip_lstrip rstrip_idem)

lemma strip_Nil_iff: "strip s = [] \<longleftrightarrow> (\<forall>c\<in>set s. is_space c)"
proof
  assume "strip s = []"
  then have "dropWhile is_space (rev (dropWhile is_space s)) = []"
    by (simp add: strip_def rstrip_def lstrip_def)
  then have a: "\<forall>c\<in>set (dropWhile is_space s). is_space c"
    by simp
  show "\<forall>c\<in>set s. is_space c"
  proof (cases "dropWhile is_space s")
    case Nil
    then show ?thesis by simp
  next
    case (Cons x xs)
    then have "\<not> is_space x" by (metis hd_dropWhile list.sel(1) list.distinct(1))
    with a Cons show ?thesis by simp
  qed
next
  assume "\<forall>c\<in>set s. is_space c"
  then have "dropWhile is_space s = []" by simp
  then show "strip s = []"
    by (simp add: strip_def rstrip_def lstrip_def del: dropWhile_eq_Nil_conv)
qed

section \<open>Facts about the three functions\<close>

lemma chat_log: "snd (chat e req h) = h @ [ChatCreate req]"
  by (simp add: chat_def split: sum.splits)

lemma chat_returns:
  "ChatCompletion_create e h req = Inr (Some raw # rest) \<Longrightarrow>
   chat e req h = (Inr (strip raw), h @ [ChatCreate req])"
  by (simp add: chat_def first_content_def)

lemma chat_cases:
  obtains x where "chat e req h = (Inl x, h @ [ChatCreate req])"
  | s where "chat e req h = (Inr s, h @ [ChatCreate req])"
  using chat_log[of e req h] by (cases "chat e req h"; cases "fst (chat e req h)") auto

lemma fetch_ok:
  assumes "requests_get e h req = Inr resp"
      and "raise_for_status resp = Inr ()"
      and "json_body resp = Inr j"
  shows "fetch e h req = Inr j"
  using assms by (simp add: fetch_def)



lemma get_recent_news_log:
  "snd (get_recent_news e t h) = h @ [NewsGet (news_request_of e t)]"
  by (simp add: get_recent_news_def Let_def split: sum.splits pyexc.splits)

lemma get_recent_news_cases:
  obtains f where "get_recent_news e t h = (Inl f, h @ [NewsGet (news_request_of e t)])"
  | s where "get_recent_news e t h = (Inr s, h @ [NewsGet (news_request_of e t)])"
  using get_recent_news_log[of e t h]
  by (cases "get_recent_news e t h"; cases "fst (get_recent_news e t h)") auto

lemma generate_post_nonblank:
  "strip (topic r) \<noteq> [] \<Longrightarrow> generate_post e r h = generate_content e (strip (topic r)) h"
  by (auto simp add: generate_post_def strip_def lstrip_def rstrip_def)

text \<open>The four ways the body of the \<^verbatim>\<open>try\<close> can end, each with the calls it has issued.\<close>

lemma try_body_cases:
  fixes e t n h
  defines "T \<equiv> ChatCreate (title_request t n)"
      and "B \<equiv> ChatCreate (body_request t n)"
  obtains
    (title_fails) x where "try_body e t n h = (Inl x, h @ [T])"
  | (meta_fails) title x where
      "try_body e t n h = (Inl x, h @ [T, ChatCreate (meta_request title)])"
  | (body_fails) title x where
      "try_body e t n h = (Inl x, h @ [T, ChatCreate (meta_request title), B])"
  | (succeeds) title md pc where
      "try_body e t n h =
         (Inr [(ascii ''title'', title), (ascii ''meta_description'', md),
               (ascii ''post_content'', pc)],
          h @ [T, ChatCreate (meta_request title), B])"
proof (cases rule: chat_cases[of e "title_request t n" h])
  case (1 x)
  then have "try_body e t n h = (Inl x, h @ [T])" by (simp add: try_body_def T_def)
  then show ?thesis by (rule title_fails)
next
  case (2 title)
  note c1 = this
  show ?thesis
  proof (cases rule: chat_cases[of e "meta_request title" "h @ [T]"])
    case (1 x)
    with c1 have "try_body e t n h = (Inl x, h @ [T, ChatCreate (meta_request title)])"
      by (simp add: try_body_def T_def)
    then show ?thesis by (rule meta_fails)
  next
    case (2 md)
    note c2 = this
    show ?thesis
    proof (cases rule: chat_cases[of e "body_request t n" "h @ [T, ChatCreate (meta_request title)]"])
      case (1 x)
      with c1 c2 have "try_body e t n h = (Inl x, h @ [T, ChatCreate (meta_request title), B])"
        by (simp add: try_body_def T_def B_def)
      then show ?thesis by (rule body_fails)
    next
      case (2 pc)
      with c1 c2 have "try_body e t n h =
         (Inr [(ascii ''title'', title), (ascii ''meta_description'', md),
               (ascii ''post_content'', pc)],
          h @ [T, ChatCreate (meta_request title), B])"
        by (simp add: try_body_def T_def B_def)
      then show ?thesis by (rule succeeds)
    qed
  qed
qed

lemma sampling_title: "sampling (title_request t n) = (20, 1, Some [[10]], None, None)"
  by (simp add: sampling_def title_request_def)

lemma sampling_meta: "sampling (meta_request s) = (30, 1, Some [[46]], None, None)"
  by (simp add: sampling_def meta_request_def)

lemma sampling_body:
  "sampling (body_request t n) = (1000, 1, None, Some (6 / 10), Some (6 / 10))"
  by (simp add: sampling_def body_request_def)

lemma titles_well_formed:
  "\<forall>a\<in>set as. well_formed_item a \<Longrightarrow> titles as = Inr (map (\<lambda>a. JStr (title_text a)) as)"
proof (induction as)
  case Nil
  then show ?case by simp
next
  case (Cons a as)
  then obtain kvs where a: "a = JObj kvs" by (cases a) auto
  from Cons.prems a have "article_title a = Inr (JStr (title_text a))"
    by (auto simp add: dict_get_def split: option.splits json.splits)
  with Cons show ?case by simp
qed

lemma strings_JStr: "strings (map (\<lambda>a. JStr (f a)) as) = Inr (map f as)"
  by (induction as) simp_all

lemma headlines_take5:
  assumes "dict_get kvs1 (ascii ''news'') (JArr []) = JArr xs"
      and "dict_get kvs2 (ascii ''news'') (JArr []) = JArr ys"
      and "xs \<noteq> []" and "ys \<noteq> []" and "take 5 xs = take 5 ys"
  shows "headlines (JObj kvs1) = headlines (JObj kvs2)"
  using assms by (simp add: headlines_def Let_def)

lemma chat_env_cong:
  assumes "ChatCompletion_create e1 = ChatCompletion_create e2"
  shows "chat e1 = chat e2"
proof (intro ext)
  fix req h
  show "chat e1 req h = chat e2 req h" using assms by (simp add: chat_def)
qed

lemma try_body_env_cong:
  assumes "ChatCompletion_create e1 = ChatCompletion_create e2"
  shows "try_body e1 = try_body e2"
proof (intro ext)
  fix t n h
  have c: "chat e1 = chat e2" using assms by (rule chat_env_cong)
  show "try_body e1 t n h = try_body e2 t n h"
    unfolding try_body_def c ..
qed

text \<open>The digest of the example payload, and the example runs the statements are tried on.\<close>

lemma news_ok: "get_recent_news env_ok (ascii ''ai'') [] =
    (Inr digest5, [NewsGet (news_request_of env_ok (ascii ''ai''))])"
  by (simp add: eval_defs)

lemma run_no_news:
  "generate_content env_no_news (ascii ''ai'') [] =
     (Inr [(ascii ''title'', [81]), (ascii ''meta_description'', [87]),
           (ascii ''post_content'', ascii ''Body'')],
      [NewsGet (news_request_of env_no_news (ascii ''ai'')),
       ChatCreate (title_request (ascii ''ai'') no_news_msg),
       ChatCreate (meta_request [81]),
       ChatCreate (body_request (ascii ''ai'') no_news_msg)])"
  by (simp add: generate_content_def try_body_def eval_defs)

section \<open>The claims\<close>

text \<open>
  Claim C1. When the topic of a /generate-post request is the empty string or consists
  only of whitespace, the handler fails with status 400 and issues no outbound call: the
  log of calls is returned as it was, whatever the two services would have answered.
\<close>

theorem generate_post_blank_topic:
  assumes "\<forall>c\<in>set (topic r). is_space c"
  shows "generate_post e r h = (Inl (HTTPException 400 empty_topic_detail), h)"
  using assms by (simp add: generate_post_def strip_Nil_iff)

theorem generate_post_blank_topic_witness:
  "is_space 32 \<and> is_space 9
   \<and> generate_post env_ok \<lparr>topic = [32, 9, 32]\<rparr> [] =
       (Inl (HTTPException 400 empty_topic_detail), [])
   \<and> generate_post env_ok \<lparr>topic = []\<rparr> [] =
       (Inl (HTTPException 400 empty_topic_detail), [])"
  using generate_post_blank_topic[of "\<lparr>topic = [32, 9, 32]\<rparr>" env_ok "[]"]
    generate_post_blank_topic[of "\<lparr>topic = []\<rparr>" env_ok "[]"]
  by (simp add: is_space_def)

text \<open>
  Claim C2. When the news call returns a response, \<^verbatim>\<open>raise_for_status\<close> does not
  raise and the decoded body is an object, whose news value (the empty list when the key
  is absent) is a list whose first five items are well formed, \<open>get_recent_news\<close>
  returns the fixed sentence when the list is empty, and otherwise the titles of the
  first five items (of all items when there are fewer), in their order, joined by
  newlines, an item without a title giving the empty string.
\<close>

theorem get_recent_news_first_five:
  assumes "requests_get e h (news_request_of e t) = Inr resp"
      and "raise_for_status resp = Inr ()"
      and "json_body resp = Inr (JObj kvs)"
      and "dict_get kvs (ascii ''news'') (JArr []) = JArr items"
      and "\<forall>a\<in>set (take 5 items). well_formed_item a"
  shows "get_recent_news e t h =
           (Inr (if items = [] then no_news_msg
                 else join [10] (map title_text (take 5 items))),
            h @ [NewsGet (news_request_of e t)])"
  using fetch_ok[OF assms(1-3)] assms(4) titles_well_formed[OF assms(5)]
  by (simp add: get_recent_news_def headlines_def Let_def strings_JStr)

theorem get_recent_news_first_five_witness:
  "get_recent_news env_ok (ascii ''ai'') [] =
     (Inr (ascii ''a1'' @ [10] @ ascii ''a2'' @ [10] @ [10] @ ascii ''a4'' @ [10] @ ascii ''a5''),
      [NewsGet (news_request_of env_ok (ascii ''ai''))])
   \<and> get_recent_news env_no_news (ascii ''ai'') [] =
     (Inr no_news_msg, [NewsGet (news_request_of env_no_news (ascii ''ai''))])"
  using get_recent_news_first_five[of env_ok "[]" "ascii ''ai''" "ok_response seven_articles"
      "[(ascii ''status'', JStr (ascii ''ok'')),
        (ascii ''news'',
         JArr [article ''a1'', article ''a2'', JObj [(ascii ''id'', JNum 3)], article ''a4'',
               article ''a5'', article ''a6'', article ''a7''])]"
      "[article ''a1'', article ''a2'', JObj [(ascii ''id'', JNum 3)], article ''a4'',
        article ''a5'', article ''a6'', article ''a7'']"]
    get_recent_news_first_five[of env_no_news "[]" "ascii ''ai''" "ok_response (JObj [])" "[]" "[]"]
  by (simp add: fixture_defs raise_for_status_def dict_get_def ascii_def)




text \<open>
  Claim C4. For a topic that is not blank, when the news digest is obtained and the
  title step gives a title, but the meta-description step fails (the call raises, or its
  answer has no usable first choice), /generate-post fails with status 500, the detail
  being a fixed prefix followed by the text of the exception; no post, partial or whole,
  is returned; and the calls issued after the news call are the title call and the
  meta-description call only, so the article call is never made.
\<close>

theorem meta_failure_aborts:
  assumes "strip (topic r) = t" and "t \<noteq> []"
      and "get_recent_news e t h = (Inr news, h0)"
      and "chat e (title_request t news) h0 = (Inr title, h1)"
      and "chat e (meta_request title) h1 = (Inl (PyExc c msg), h2)"
  shows "generate_content e t h =
           (Inl (HTTPException 500
                  ((if c = OpenAIError then openai_error_prefix else generation_error_prefix)
                   @ msg)),
            h0 @ [ChatCreate (title_request t news), ChatCreate (meta_request title)])
       \<and> generate_post e r h =
           (Inl (HTTPException 500
                  ((if c = OpenAIError then openai_error_prefix else generation_error_prefix)
                   @ msg)),
            h0 @ [ChatCreate (title_request t news), ChatCreate (meta_request title)])"
proof -
  from assms(4) have h1: "h1 = h0 @ [ChatCreate (title_request t news)]"
    using chat_log[of e "title_request t news" h0] by simp
  from assms(5) have h2: "h2 = h1 @ [ChatCreate (meta_request title)]"
    using chat_log[of e "meta_request title" h1] by simp
  have "generate_content e t h =
           (Inl (HTTPException 500
                  ((if c = OpenAIError then openai_error_prefix else generation_error_prefix)
                   @ msg)),
            h0 @ [ChatCreate (title_request t news), ChatCreate (meta_request title)])"
    using assms(3-5) h1 h2 by (simp add: generate_content_def try_body_def)
  with assms(1,2) show ?thesis by (simp add: generate_post_nonblank)
qed

theorem meta_failure_aborts_witness:
  "generate_post env_meta_fails \<lparr>topic = ascii '' ai ''\<rparr> [] =
     (Inl (HTTPException 500 (openai_error_prefix @ ascii ''rate limit'')),
      [NewsGet (news_request_of env_meta_fails (ascii ''ai'')),
       ChatCreate (title_request (ascii ''ai'') digest5),
       ChatCreate (meta_request (ascii ''Q''))])"
proof -
  let ?N = "NewsGet (news_request_of env_meta_fails (ascii ''ai''))"
  let ?T = "ChatCreate (title_request (ascii ''ai'') digest5)"
  let ?M = "ChatCreate (meta_request (ascii ''Q''))"
  have s: "strip (topic \<lparr>topic = ascii '' ai ''\<rparr>) = ascii ''ai''" "ascii ''ai'' \<noteq> []"
    by (simp_all add: strip_def lstrip_def rstrip_def is_space_def ascii_def)
  have n: "get_recent_news env_meta_fails (ascii ''ai'') [] = (Inr digest5, [?N])"
    by (simp add: eval_defs)
  have c1: "chat env_meta_fails (title_request (ascii ''ai'') digest5) [?N] =
              (Inr (ascii ''Q''), [?N, ?T])"
    by (simp add: eval_defs)
  have c2: "chat env_meta_fails (meta_request (ascii ''Q'')) [?N, ?T] =
              (Inl (PyExc OpenAIError (ascii ''rate limit'')), [?N, ?T, ?M])"
    by (simp add: eval_defs)
  show ?thesis
    using meta_failure_aborts[OF s n c1 c2] by simp
qed

text \<open>
  Claim C5. When the news digest is obtained and the title call returns a text, the
  second call issued is the meta-description request built from the stripped text, its
  prompt being the fixed opening, the stripped text and the fixed ending; and whenever
  a post is returned, its title field is that same stripped text.
\<close>

theorem title_round_trip:
  assumes "get_recent_news e t h = (Inr news, h0)"
      and "ChatCompletion_create e h0 (title_request t news) = Inr (Some raw # rest)"
  shows "\<exists>out h'. generate_content e t h =
            (out, h0 @ [ChatCreate (title_request t news), ChatCreate (meta_request (strip raw))]
                  @ h')
          \<and> messages (meta_request (strip raw)) =
              [(ascii ''user'', meta_prompt_1 @ strip raw @ meta_prompt_2)]
          \<and> (\<forall>p. out = Inr p \<longrightarrow> map_of p (ascii ''title'') = Some (strip raw))"
proof -
  let ?T = "ChatCreate (title_request t news)"
  let ?M = "ChatCreate (meta_request (strip raw))"
  have c1: "chat e (title_request t news) h0 = (Inr (strip raw), h0 @ [?T])"
    using assms(2) by (rule chat_returns)
  obtain x2 h2 where c2: "chat e (meta_request (strip raw)) (h0 @ [?T]) = (x2, h2)"
    by (cases "chat e (meta_request (strip raw)) (h0 @ [?T])")
  then have h2: "h2 = h0 @ [?T, ?M]"
    using chat_log[of e "meta_request (strip raw)" "h0 @ [?T]"] by simp
  obtain x3 h3 where c3: "chat e (body_request t news) h2 = (x3, h3)"
    by (cases "chat e (body_request t news) h2")
  then have h3: "h3 = h0 @ [?T, ?M] @ [ChatCreate (body_request t news)]"
    using chat_log[of e "body_request t news" h2] h2 by simp
  have m: "messages (meta_request (strip raw)) =
              [(ascii ''user'', meta_prompt_1 @ strip raw @ meta_prompt_2)]"
    by (simp add: meta_request_def meta_prompt_def)
  show ?thesis
  proof (cases x2)
    case (Inl x)
    then show ?thesis using assms(1) c1 c2 h2 m
      by (cases x) (simp add: generate_content_def try_body_def)
  next
    case (Inr md)
    show ?thesis
    proof (cases x3)
      case (Inl x)
      then show ?thesis using assms(1) c1 c2 c3 h2 h3 m Inr
        by (cases x) (simp add: generate_content_def try_body_def)
    next
      case (Inr pc)
      then show ?thesis using assms(1) c1 c2 c3 h2 h3 m \<open>x2 = Inr md\<close>
        by (simp add: generate_content_def try_body_def ascii_def)
    qed
  qed
qed

theorem title_round_trip_witness:
  "strip (ascii '' Q '') = ascii ''Q''
   \<and> (\<exists>out h'. generate_content env_ok (ascii ''ai'') [] =
          (out, [NewsGet (news_request_of env_ok (ascii ''ai''))]
                @ [ChatCreate (title_request (ascii ''ai'') digest5),
                   ChatCreate (meta_request (ascii ''Q''))] @ h')
        \<and> messages (meta_request (ascii ''Q'')) =
            [(ascii ''user'', meta_prompt_1 @ ascii ''Q'' @ meta_prompt_2)]
        \<and> (\<forall>p. out = Inr p \<longrightarrow> map_of p (ascii ''title'') = Some (ascii ''Q'')))"
proof -
  have s: "strip (ascii '' Q '') = ascii ''Q''"
    by (simp add: strip_def lstrip_def rstrip_def is_space_def ascii_def)
  have c: "ChatCompletion_create env_ok [NewsGet (news_request_of env_ok (ascii ''ai''))]
             (title_request (ascii ''ai'') digest5) = Inr (Some (ascii '' Q '') # [])"
    by (simp add: fixture_defs title_request_def)
  show ?thesis
    using title_round_trip[OF news_ok c] s by simp
qed

text \<open>
  Claim C6, as stated, fails: the handler does not check that a generated text is not
  empty. With a topic that is not blank, the news call succeeding and all three
  generation calls returning a text, the title call's text being empty, the response
  has an empty title.
\<close>

theorem empty_title_counterexample:
  "strip (topic \<lparr>topic = ascii ''ai''\<rparr>) = ascii ''ai''
   \<and> get_recent_news env_empty_title (ascii ''ai'') [] =
       (Inr digest5, [NewsGet (news_request_of env_empty_title (ascii ''ai''))])
   \<and> ChatCompletion_create env_empty_title
        [NewsGet (news_request_of env_empty_title (ascii ''ai''))]
        (title_request (ascii ''ai'') digest5) = Inr [Some []]
   \<and> ChatCompletion_create env_empty_title
        [NewsGet (news_request_of env_empty_title (ascii ''ai'')),
         ChatCreate (title_request (ascii ''ai'') digest5)]
        (meta_request []) = Inr [Some (ascii ''W'')]
   \<and> ChatCompletion_create env_empty_title
        [NewsGet (news_request_of env_empty_title (ascii ''ai'')),
         ChatCreate (title_request (ascii ''ai'') digest5),
         ChatCreate (meta_request [])]
        (body_request (ascii ''ai'') digest5) = Inr [Some (ascii ''Body'')]
   \<and> fst (generate_post env_empty_title \<lparr>topic = ascii ''ai''\<rparr> []) =
       Inr [(ascii ''title'', []),
            (ascii ''meta_description'', ascii ''W''),
            (ascii ''post_content'', ascii ''Body'')]"
  by (simp add: generate_post_def generate_content_def try_body_def eval_defs)

text \<open>
  Claim C6, amended. For a topic that is not blank, when the news call gives a digest
  and each of the three generation calls returns a text, /generate-post returns a
  response with exactly the three fields title, meta_description and post_content, in
  this order, each equal to the stripped text of its generation call; a field is empty
  exactly when its call's text is empty or all whitespace.
\<close>

theorem all_calls_succeed_post:
  assumes "strip (topic r) = t" and "t \<noteq> []"
      and "get_recent_news e t h = (Inr news, h0)"
      and "ChatCompletion_create e h0 (title_request t news) = Inr (Some r1 # c1)"
      and "ChatCompletion_create e (h0 @ [ChatCreate (title_request t news)])
             (meta_request (strip r1)) = Inr (Some r2 # c2)"
      and "ChatCompletion_create e
             (h0 @ [ChatCreate (title_request t news), ChatCreate (meta_request (strip r1))])
             (body_request t news) = Inr (Some r3 # c3)"
  shows "fst (generate_post e r h) =
           Inr [(ascii ''title'', strip r1),
                (ascii ''meta_description'', strip r2),
                (ascii ''post_content'', strip r3)]
       \<and> (strip r1 = [] \<longleftrightarrow> (\<forall>c\<in>set r1. is_space c))
       \<and> (strip r2 = [] \<longleftrightarrow> (\<forall>c\<in>set r2. is_space c))
       \<and> (strip r3 = [] \<longleftrightarrow> (\<forall>c\<in>set r3. is_space c))"
proof -
  have "try_body e t news h0 =
          (Inr [(ascii ''title'', strip r1), (ascii ''meta_description'', strip r2),
                (ascii ''post_content'', strip r3)],
           h0 @ [ChatCreate (title_request t news), ChatCreate (meta_request (strip r1)),
                 ChatCreate (body_request t news)])"
    using chat_returns[OF assms(4)] chat_returns[OF assms(5)] chat_returns[OF assms(6)]
    by (simp add: try_body_def)
  with assms(1,2,3) have "fst (generate_post e r h) =
           Inr [(ascii ''title'', strip r1),
                (ascii ''meta_description'', strip r2),
                (ascii ''post_content'', strip r3)]"
    by (simp add: generate_post_nonblank generate_content_def)
  then show ?thesis by (simp only: strip_Nil_iff simp_thms)
qed

theorem all_calls_succeed_post_witness:
  "fst (generate_post env_ok \<lparr>topic = ascii '' ai ''\<rparr> []) =
     Inr [(ascii ''title'', ascii ''Q''),
          (ascii ''meta_description'', ascii ''W''),
          (ascii ''post_content'', ascii ''Body'')]"
proof -
  have t: "strip (topic \<lparr>topic = ascii '' ai ''\<rparr>) = ascii ''ai''" "ascii ''ai'' \<noteq> []"
    by (simp_all add: strip_def lstrip_def rstrip_def is_space_def ascii_def)
  have c1: "ChatCompletion_create env_ok [NewsGet (news_request_of env_ok (ascii ''ai''))]
             (title_request (ascii ''ai'') digest5) = Inr (Some (ascii '' Q '') # [])"
    by (simp add: fixture_defs title_request_def)
  have c2: "ChatCompletion_create env_ok
             ([NewsGet (news_request_of env_ok (ascii ''ai''))]
              @ [ChatCreate (title_request (ascii ''ai'') digest5)])
             (meta_request (strip (ascii '' Q ''))) = Inr (Some (ascii ''W '') # [Some (ascii ''other'')])"
    by (simp add: fixture_defs meta_request_def)
  have c3: "ChatCompletion_create env_ok
             ([NewsGet (news_request_of env_ok (ascii ''ai''))]
              @ [ChatCreate (title_request (ascii ''ai'') digest5),
                 ChatCreate (meta_request (strip (ascii '' Q '')))])
             (body_request (ascii ''ai'') digest5) = Inr (Some (ascii ''Body'') # [])"
    by (simp add: fixture_defs body_request_def)
  have s: "strip (ascii '' Q '') = ascii ''Q''" "strip (ascii ''W '') = ascii ''W''"
      "strip (ascii ''Body'') = ascii ''Body''"
    by (simp_all add: strip_def lstrip_def rstrip_def is_space_def ascii_def)
  show ?thesis
    using all_calls_succeed_post[OF t news_ok c1 c2 c3] s by simp
qed

text \<open>
  Claim C7, as stated, fails: the article prompt embeds no text of an earlier generation
  call. In a run where the title call produced the text Q and the meta-description call
  the text W, the third call is the article request for the topic and the news digest,
  and neither Q nor W occurs anywhere in its prompt.
\<close>

theorem body_prompt_without_generated_text:
  "generate_content env_no_news (ascii ''ai'') [] =
     (Inr [(ascii ''title'', [81]), (ascii ''meta_description'', [87]),
           (ascii ''post_content'', ascii ''Body'')],
      [NewsGet (news_request_of env_no_news (ascii ''ai'')),
       ChatCreate (title_request (ascii ''ai'') no_news_msg),
       ChatCreate (meta_request [81]),
       ChatCreate (body_request (ascii ''ai'') no_news_msg)])
   \<and> messages (body_request (ascii ''ai'') no_news_msg) =
        [(ascii ''user'', body_prompt (ascii ''ai'') no_news_msg)]
   \<and> \<not> sublist [81] (body_prompt (ascii ''ai'') no_news_msg)
   \<and> \<not> sublist [87] (body_prompt (ascii ''ai'') no_news_msg)"
proof -
  note run = run_no_news
  have m: "messages (body_request (ascii ''ai'') no_news_msg) =
        [(ascii ''user'', body_prompt (ascii ''ai'') no_news_msg)]"
    by (simp add: body_request_def)
  have a: "81 \<notin> set (body_prompt (ascii ''ai'') no_news_msg)"
    by (simp add: body_prompt_def ascii_def no_news_msg_def body_prompt_1_def body_prompt_2_def
          body_prompt_3_def)
  have b: "87 \<notin> set (body_prompt (ascii ''ai'') no_news_msg)"
    by (simp add: body_prompt_def ascii_def no_news_msg_def body_prompt_1_def body_prompt_2_def
          body_prompt_3_def)
  from a have a': "\<not> sublist [81] (body_prompt (ascii ''ai'') no_news_msg)"
    using set_mono_sublist by fastforce
  from b have b': "\<not> sublist [87] (body_prompt (ascii ''ai'') no_news_msg)"
    using set_mono_sublist by fastforce
  from run m a' b' show ?thesis by blast
qed

text \<open>
  Claim C7, amended. In every run of \<open>generate_content\<close> that returns a post, the calls
  issued are the news call and then three generation calls whose prompts are: for the
  title, fixed text around the topic and the news digest; for the meta-description,
  fixed text around the generated title (the title field of the post) and nothing else;
  for the article, fixed text around the topic and the news digest, with no generated
  text in it.
\<close>

theorem prompts_of_successful_run:
  assumes "generate_content e t h = (Inr p, h')"
  shows "\<exists>news title.
           get_recent_news e t h = (Inr news, h @ [NewsGet (news_request_of e t)])
         \<and> map_of p (ascii ''title'') = Some title
         \<and> h' = h @ [NewsGet (news_request_of e t), ChatCreate (title_request t news),
                     ChatCreate (meta_request title), ChatCreate (body_request t news)]
         \<and> messages (title_request t news) =
             [(ascii ''user'', title_prompt_1 @ t @ title_prompt_2 @ news @ title_prompt_3)]
         \<and> messages (meta_request title) =
             [(ascii ''user'', meta_prompt_1 @ title @ meta_prompt_2)]
         \<and> messages (body_request t news) =
             [(ascii ''user'', body_prompt_1 @ t @ body_prompt_2 @ news @ body_prompt_3)]"
proof (cases rule: get_recent_news_cases[of e t h])
  case (1 f)
  with assms show ?thesis by (simp add: generate_content_def)
next
  case (2 n)
  let ?h0 = "h @ [NewsGet (news_request_of e t)]"
  have m: "messages (title_request t n) =
             [(ascii ''user'', title_prompt_1 @ t @ title_prompt_2 @ n @ title_prompt_3)]"
     "\<And>s. messages (meta_request s) = [(ascii ''user'', meta_prompt_1 @ s @ meta_prompt_2)]"
     "messages (body_request t n) =
             [(ascii ''user'', body_prompt_1 @ t @ body_prompt_2 @ n @ body_prompt_3)]"
    by (simp_all add: title_request_def meta_request_def body_request_def
          title_prompt_def meta_prompt_def body_prompt_def)
  show ?thesis
  proof (cases rule: try_body_cases[of e t n ?h0])
    case (title_fails x)
    with 2 assms show ?thesis by (cases x) (simp add: generate_content_def split: if_splits)
  next
    case (meta_fails title x)
    with 2 assms show ?thesis by (cases x) (simp add: generate_content_def split: if_splits)
  next
    case (body_fails title x)
    with 2 assms show ?thesis by (cases x) (simp add: generate_content_def split: if_splits)
  next
    case (succeeds title md pc)
    with 2 assms have p: "p = [(ascii ''title'', title), (ascii ''meta_description'', md),
                               (ascii ''post_content'', pc)]"
      and h': "h' = ?h0 @ [ChatCreate (title_request t n), ChatCreate (meta_request title),
                           ChatCreate (body_request t n)]"
      by (simp_all add: generate_content_def)
    from p have "map_of p (ascii ''title'') = Some title" by simp
    with 2 h' m show ?thesis by auto
  qed
qed

theorem prompts_of_successful_run_witness:
  "\<exists>news title.
     get_recent_news env_no_news (ascii ''ai'') [] =
       (Inr news, [] @ [NewsGet (news_request_of env_no_news (ascii ''ai''))])
   \<and> map_of [(ascii ''title'', [81]), (ascii ''meta_description'', [87]),
              (ascii ''post_content'', ascii ''Body'')] (ascii ''title'') = Some title
   \<and> [NewsGet (news_request_of env_no_news (ascii ''ai'')),
       ChatCreate (title_request (ascii ''ai'') no_news_msg),
       ChatCreate (meta_request [81]),
       ChatCreate (body_request (ascii ''ai'') no_news_msg)] =
      [] @ [NewsGet (news_request_of env_no_news (ascii ''ai'')),
            ChatCreate (title_request (ascii ''ai'') news),
            ChatCreate (meta_request title), ChatCreate (body_request (ascii ''ai'') news)]
   \<and> messages (title_request (ascii ''ai'') news) =
       [(ascii ''user'', title_prompt_1 @ ascii ''ai'' @ title_prompt_2 @ news @ title_prompt_3)]
   \<and> messages (meta_request title) = [(ascii ''user'', meta_prompt_1 @ title @ meta_prompt_2)]
   \<and> messages (body_request (ascii ''ai'') news) =
       [(ascii ''user'', body_prompt_1 @ ascii ''ai'' @ body_prompt_2 @ news @ body_prompt_3)]"
  by (rule prompts_of_successful_run[OF run_no_news])

text \<open>
  Claim C8. In every run of \<open>generate_content\<close>, the generation calls issued are, in
  order, a beginning of: the title call with an output cap of 20 tokens, temperature 1
  and the newline as stop sequence; the meta-description call with a cap of 30 tokens,
  temperature 1 and the period as stop sequence; the article call with a cap of 1000
  tokens, temperature 1, no stop sequence, and presence and frequency penalties of 0.6
  each. A run that returns a post has issued all three.
\<close>

theorem sampling_parameters:
  "(let issued = map sampling (chat_requests (drop (length h) (snd (generate_content e t h))));
        specified = [(20, 1, Some [[10]], None, None),
                     (30, 1, Some [[46]], None, None),
                     (1000, 1, None, Some (6 / 10), Some (6 / 10))]
    in prefix issued specified
       \<and> (\<forall>p. fst (generate_content e t h) = Inr p \<longrightarrow> issued = specified))"
proof (cases rule: get_recent_news_cases[of e t h])
  case (1 f)
  then show ?thesis by (simp add: generate_content_def)
next
  case (2 n)
  let ?h0 = "h @ [NewsGet (news_request_of e t)]"
  show ?thesis
  proof (cases rule: try_body_cases[of e t n ?h0])
    case (title_fails x)
    with 2 show ?thesis
      by (cases x) (simp add: generate_content_def sampling_title)
  next
    case (meta_fails title x)
    with 2 show ?thesis
      by (cases x) (simp add: generate_content_def sampling_title sampling_meta)
  next
    case (body_fails title x)
    with 2 show ?thesis
      by (cases x) (simp add: generate_content_def sampling_title sampling_meta sampling_body)
  next
    case (succeeds title md pc)
    with 2 show ?thesis
      by (simp add: generate_content_def sampling_title sampling_meta sampling_body)
  qed
qed

theorem sampling_parameters_witness:
  "map sampling (chat_requests (snd (generate_content env_no_news (ascii ''ai'') []))) =
     [(20, 1, Some [[10]], None, None),
      (30, 1, Some [[46]], None, None),
      (1000, 1, None, Some (6 / 10), Some (6 / 10))]
   \<and> (6 / 10 :: rat) \<noteq> 0"
  using sampling_parameters[of "[]" env_no_news "ascii ''ai''"] run_no_news
  by (simp add: Let_def)

text \<open>
  Claim C9. For a topic whose stripped form is not empty, the handler calls
  \<open>generate_content\<close> with the stripped topic, so its result and its outbound calls on
  the topic are those on the already stripped topic, the services being the same.
\<close>

theorem generate_post_trims_topic:
  assumes "strip (topic r) \<noteq> []"
  shows "generate_post e r h = generate_content e (strip (topic r)) h
       \<and> generate_post e r h = generate_post e (r\<lparr>topic := strip (topic r)\<rparr>) h"
  using assms by (simp add: generate_post_nonblank strip_idem)

theorem generate_post_trims_topic_witness:
  "strip (ascii '' ai '') = ascii ''ai''
   \<and> generate_post env_ok \<lparr>topic = ascii '' ai ''\<rparr> [] =
       generate_content env_ok (ascii ''ai'') []
   \<and> generate_post env_ok \<lparr>topic = ascii '' ai ''\<rparr> [] =
       generate_post env_ok \<lparr>topic = ascii ''ai''\<rparr> []"
proof -
  have s: "strip (ascii '' ai '') = ascii ''ai''"
    by (simp add: strip_def lstrip_def rstrip_def is_space_def ascii_def)
  have k: "strip (topic \<lparr>topic = ascii '' ai ''\<rparr>) = ascii ''ai''"
    using s by simp
  have n: "strip (topic \<lparr>topic = ascii '' ai ''\<rparr>) \<noteq> []"
    unfolding k by (simp add: ascii_def)
  have u: "\<lparr>topic = ascii '' ai ''\<rparr>\<lparr>topic := ascii ''ai''\<rparr> = \<lparr>topic = ascii ''ai''\<rparr>"
    by simp
  from generate_post_trims_topic[OF n, of env_ok "[]", unfolded k u] s
  show ?thesis by blast
qed

text \<open>
  Claim C10. Items after the fifth of the news list have no influence. Take two
  environments with the same key and the same generation service, whose news calls
  succeed (a response, no error status, a decoded body that is an object) with
  non-empty news lists that agree on their first five items. Then
  \<open>get_recent_news\<close> returns the same string in both, and \<open>generate_content\<close> and the
  handler return the same result and issue the same calls, prompts included.
\<close>

theorem articles_after_fifth_ignored:
  assumes "strip (topic r) = t"
      and "requests_get e1 h (news_request_of e1 t) = Inr resp1"
      and "raise_for_status resp1 = Inr ()" and "json_body resp1 = Inr (JObj kvs1)"
      and "requests_get e2 h (news_request_of e2 t) = Inr resp2"
      and "raise_for_status resp2 = Inr ()" and "json_body resp2 = Inr (JObj kvs2)"
      and "dict_get kvs1 (ascii ''news'') (JArr []) = JArr xs"
      and "dict_get kvs2 (ascii ''news'') (JArr []) = JArr ys"
      and "xs \<noteq> []" and "ys \<noteq> []" and "take 5 xs = take 5 ys"
      and "currentsapi_key e1 = currentsapi_key e2"
      and "ChatCompletion_create e1 = ChatCompletion_create e2"
  shows "get_recent_news e1 t h = get_recent_news e2 t h
       \<and> generate_content e1 t h = generate_content e2 t h
       \<and> generate_post e1 r h = generate_post e2 r h"
proof -
  have rq: "news_request_of e1 t = news_request_of e2 t"
    using assms(13) by (simp add: news_request_of_def)
  have hl: "headlines (JObj kvs1) = headlines (JObj kvs2)"
    using assms(8-12) by (rule headlines_take5)
  have n: "get_recent_news e1 t h = get_recent_news e2 t h"
    using fetch_ok[OF assms(2-4)] fetch_ok[OF assms(5-7)] rq hl
    by (simp add: get_recent_news_def Let_def)
  have g: "generate_content e1 t h = generate_content e2 t h"
    unfolding generate_content_def n try_body_env_cong[OF assms(14)] ..
  have "generate_post e1 r h = generate_post e2 r h"
    using g assms(1) by (simp add: generate_post_def)
  with n g show ?thesis by simp
qed

theorem articles_after_fifth_ignored_witness:
  "get_recent_news env_ok (ascii ''ai'') [] = get_recent_news env_five (ascii ''ai'') []
   \<and> generate_content env_ok (ascii ''ai'') [] = generate_content env_five (ascii ''ai'') []
   \<and> generate_post env_ok \<lparr>topic = ascii '' ai ''\<rparr> [] =
       generate_post env_five \<lparr>topic = ascii '' ai ''\<rparr> []"
proof -
  have s: "strip (topic \<lparr>topic = ascii '' ai ''\<rparr>) = ascii ''ai''"
    by (simp add: strip_def lstrip_def rstrip_def is_space_def ascii_def)
  have a: "requests_get env_ok [] (news_request_of env_ok (ascii ''ai'')) =
      Inr (ok_response seven_articles)"
    by (simp add: env_ok_def stub_env_def)
  have a1: "raise_for_status (ok_response seven_articles) = Inr ()"
    by (simp add: raise_for_status_def ok_response_def)
  have a2: "json_body (ok_response seven_articles) =
      Inr (JObj [(ascii ''status'', JStr (ascii ''ok'')),
           (ascii ''news'',
            JArr [article ''a1'', article ''a2'', JObj [(ascii ''id'', JNum 3)], article ''a4'',
                  article ''a5'', article ''a6'', article ''a7''])])"
    by (simp add: ok_response_def seven_articles_def)
  have b: "requests_get env_five [] (news_request_of env_five (ascii ''ai'')) =
      Inr (ok_response five_articles)"
    by (simp add: env_five_def stub_env_def)
  have b1: "raise_for_status (ok_response five_articles) = Inr ()"
    by (simp add: raise_for_status_def ok_response_def)
  have b2: "json_body (ok_response five_articles) =
      Inr (JObj [(ascii ''news'',
            JArr [article ''a1'', article ''a2'', JObj [(ascii ''id'', JNum 3)], article ''a4'',
                  article ''a5''])])"
    by (simp add: ok_response_def five_articles_def)
  have c: "dict_get [(ascii ''status'', JStr (ascii ''ok'')),
           (ascii ''news'',
            JArr [article ''a1'', article ''a2'', JObj [(ascii ''id'', JNum 3)], article ''a4'',
                  article ''a5'', article ''a6'', article ''a7''])] (ascii ''news'') (JArr []) =
          JArr [article ''a1'', article ''a2'', JObj [(ascii ''id'', JNum 3)], article ''a4'',
                  article ''a5'', article ''a6'', article ''a7'']"
    by (simp add: dict_get_def ascii_def)
  have d: "dict_get [(ascii ''news'',
            JArr [article ''a1'', article ''a2'', JObj [(ascii ''id'', JNum 3)], article ''a4'',
                  article ''a5''])] (ascii ''news'') (JArr []) =
          JArr [article ''a1'', article ''a2'', JObj [(ascii ''id'', JNum 3)], article ''a4'',
                  article ''a5'']"
    by (simp add: dict_get_def)
  show ?thesis
    using articles_after_fifth_ignored[OF s a a1 a2 b b1 b2 c d]
    by (simp add: env_ok_def env_five_def stub_env_def)
qed

end
